theory Spec2Isabelle
  imports Main "HOL-Library.List_Lexorder" "HOL-Library.Multiset" "HOL-Library.Word"
begin

unbundle bit_operations_syntax

section \<open>Text: Python strings as sequences of code points\<close>

text \<open>
  A Python \<open>str\<close> is a sequence of Unicode code points; the patterns of \<open>rules.py\<close>
  contain Vietnamese letters beyond Latin-1, so a string is a list of code points here, and
  an ASCII literal of the source is written \<open>cp ''...''\<close>.
\<close>

type_synonym str = "nat list"

definition cp :: "string \<Rightarrow> str" where
  "cp s = map of_char s"

text \<open>
  The classifier consults the Unicode database of the Python runtime in four places:
  \<open>str.lower()\<close>, and in the \<open>re\<close> module the classes \<open>\w\<close> (behind \<open>\b\<close>), \<open>\s\<close>,
  \<open>\d\<close> and the letter comparison of \<open>re.IGNORECASE\<close>. These tables are not part of the
  repository; the model takes them as a parameter, and every theorem below holds for any
  tables. \<open>lower_cp before c after\<close> is what \<open>str.lower()\<close> puts in place of the code
  point \<open>c\<close> standing between \<open>before\<close> and \<open>after\<close> (one to three code points; the
  neighbours matter for the Greek final sigma only).
\<close>

record ucd =
  lower_cp :: "str \<Rightarrow> nat \<Rightarrow> str \<Rightarrow> str"
  is_alnum :: "nat \<Rightarrow> bool"
  is_space :: "nat \<Rightarrow> bool"
  is_digit :: "nat \<Rightarrow> bool"
  ci_match :: "nat \<Rightarrow> nat \<Rightarrow> bool"

text \<open>The tables on ASCII, where they are small enough to write down; used for examples.\<close>

definition ascii_lower :: "nat \<Rightarrow> nat" where
  "ascii_lower c = (if 65 \<le> c \<and> c \<le> 90 then c + 32 else c)"

definition ascii_ucd :: ucd where
  "ascii_ucd = \<lparr>
     lower_cp = (\<lambda>before c after. [ascii_lower c]),
     is_alnum = (\<lambda>c. (48 \<le> c \<and> c \<le> 57) \<or> (65 \<le> c \<and> c \<le> 90) \<or> (97 \<le> c \<and> c \<le> 122)),
     is_space = (\<lambda>c. (9 \<le> c \<and> c \<le> 13) \<or> (28 \<le> c \<and> c \<le> 32)),
     is_digit = (\<lambda>c. 48 \<le> c \<and> c \<le> 57),
     ci_match = (\<lambda>p c. ascii_lower c = ascii_lower p) \<rparr>"

fun lower_from :: "ucd \<Rightarrow> str \<Rightarrow> str \<Rightarrow> str" where
  "lower_from U before [] = []"
| "lower_from U before (c # after) = lower_cp U before c after @ lower_from U (before @ [c]) after"

definition str_lower :: "ucd \<Rightarrow> str \<Rightarrow> str" where
  "str_lower U s = lower_from U [] s"

section \<open>Regular expressions: the fragment of \<open>re\<close> that \<open>rules.py\<close> uses\<close>

text \<open>
  The constructors follow the parse tree of Python's \<open>re\<close>: a literal code point (compared
  under \<open>re.IGNORECASE\<close>), the classes \<open>\s\<close> and \<open>\d\<close>, a range \<open>[a-b]\<close>, the assertion
  \<open>\b\<close>, a sequence, a branch \<open>r1|...|rn\<close>, \<open>r?\<close> and \<open>r*\<close>. A bracket set of single
  characters such as \<open>[:h\.]\<close> is the branch of its members, \<open>\d{1,2}\<close> is \<open>\d\d?\<close> and
  \<open>\d{2}\<close> is \<open>\d\d\<close>. The classifier only tests whether \<open>search\<close> finds a match, so the
  order in which a backtracking matcher would try the alternatives does not matter.
\<close>

datatype regex =
    Chr nat
  | Space
  | Digit
  | Range nat nat
  | Bnd
  | Seqs "regex list"
  | Alts "regex list"
  | Opt regex
  | Star regex

definition lit :: "string \<Rightarrow> regex" where
  "lit s = Seqs (map Chr (cp s))"

definition cps :: "nat list \<Rightarrow> regex" where
  "cps ns = Seqs (map Chr ns)"

text \<open>
  A position in the subject text: the code point just before it (\<open>None\<close> at the start of
  the text) and the text from it on.
\<close>

type_synonym pos = "nat option \<times> str"

definition is_word :: "ucd \<Rightarrow> nat \<Rightarrow> bool" where
  "is_word U c = (is_alnum U c \<or> c = 95)"

definition at_boundary :: "ucd \<Rightarrow> pos \<Rightarrow> bool" where
  "at_boundary U x =
     ((case fst x of None \<Rightarrow> False | Some c \<Rightarrow> is_word U c)
      \<noteq> (case snd x of [] \<Rightarrow> False | c # cs \<Rightarrow> is_word U c))"

definition one_char :: "(nat \<Rightarrow> bool) \<Rightarrow> pos \<Rightarrow> pos list" where
  "one_char P x = (case snd x of [] \<Rightarrow> [] | c # cs \<Rightarrow> if P c then [(Some c, cs)] else [])"

fun repeat_steps :: "(pos \<Rightarrow> pos list) \<Rightarrow> nat \<Rightarrow> pos \<Rightarrow> pos list" where
  "repeat_steps f 0 x = [x]"
| "repeat_steps f (Suc n) x = x # concat (map (repeat_steps f n) (f x))"

text \<open>
  \<open>step U r x\<close> lists the positions at which a match of \<open>r\<close> that starts at \<open>x\<close> can
  end. An iteration of \<open>r*\<close> that makes progress consumes a code point, so no more
  iterations than code points left are needed.
\<close>

fun step :: "ucd \<Rightarrow> regex \<Rightarrow> pos \<Rightarrow> pos list"
  and seq_steps :: "ucd \<Rightarrow> regex list \<Rightarrow> pos list \<Rightarrow> pos list"
  and alt_steps :: "ucd \<Rightarrow> regex list \<Rightarrow> pos \<Rightarrow> pos list" where
  "step U (Chr p) x = one_char (ci_match U p) x"
| "step U Space x = one_char (is_space U) x"
| "step U Digit x = one_char (is_digit U) x"
| "step U (Range a b) x = one_char (\<lambda>c. a \<le> c \<and> c \<le> b) x"
| "step U Bnd x = (if at_boundary U x then [x] else [])"
| "step U (Seqs rs) x = seq_steps U rs [x]"
| "step U (Alts rs) x = alt_steps U rs x"
| "step U (Opt r) x = step U r x @ [x]"
| "step U (Star r) x = repeat_steps (\<lambda>y. step U r y) (length (snd x)) x"
| "seq_steps U [] xs = xs"
| "seq_steps U (r # rs) xs = seq_steps U rs (concat (map (\<lambda>y. step U r y) xs))"
| "alt_steps U [] x = []"
| "alt_steps U (r # rs) x = step U r x @ alt_steps U rs x"

text \<open>\<open>pattern.search(text)\<close>: is there a match starting at some position of the text?\<close>

fun search_from :: "ucd \<Rightarrow> regex \<Rightarrow> pos \<Rightarrow> bool" where
  "search_from U r (p, []) = (step U r (p, []) \<noteq> [])"
| "search_from U r (p, c # cs) = (if step U r (p, c # cs) \<noteq> [] then True else search_from U r (Some c, cs))"

definition re_search :: "ucd \<Rightarrow> regex \<Rightarrow> str \<Rightarrow> bool" where
  "re_search U r s = search_from U r (None, s)"

subsection \<open>The precompiled patterns\<close>

definition RE_TIME_PROPOSE :: regex where
  "RE_TIME_PROPOSE = Alts [Seqs [Alts [Seqs [lit ''meet'', Opt (lit ''ing'')], lit
     ''schedule'', lit ''call'', lit ''zoom'', lit ''teams'', lit ''hangout'', Seqs [cps [99,
     117, 7897, 99], Star Space, cps [104, 7885, 112]], Seqs [cps [273, 7863, 116], Star Space,
     cps [108, 7883, 99, 104]], cps [104, 7885, 112]], Bnd], Seqs [Bnd, Alts [lit ''mon'', lit
     ''tue'', lit ''wed'', lit ''thu'', lit ''fri'', lit ''sat'', lit ''sun''], Bnd], Seqs [Bnd,
     lit ''th'', Opt (cps [7913]), Star Space, Range 50 55, Bnd], Seqs [Bnd, Digit, Opt Digit,
     Alts [lit '':'', lit ''h'', lit ''.''], Digit, Digit, Bnd]]"

definition RE_TIME_CONFIRM :: regex where
  "RE_TIME_CONFIRM = Seqs [Bnd, Alts [Seqs [lit ''confirm'', Opt (lit ''ed'')], Seqs [lit
     ''see'', Star Space, lit ''you''], lit ''approved'', Seqs [lit ''ok'', Opt (lit ''ay'')],
     Seqs [lit ''sounds'', Star Space, lit ''good''], Seqs [cps [273, 227], Star Space, cps [120,
     225, 99], Star Space, cps [110, 104, 7853, 110]], Seqs [cps [120, 225, 99], Star Space, cps
     [110, 104, 7853, 110]], Seqs [cps [273, 7891, 110, 103], Star Space, cps [253]], Seqs [cps
     [104, 7865, 110], Star Space, cps [103, 7863, 112]]], Bnd]"

definition RE_TIME_RESCHED :: regex where
  "RE_TIME_RESCHED = Seqs [Bnd, Alts [Seqs [lit ''re'', Opt (lit ''-''), lit ''schedule''], lit
     ''resched'', lit ''move'', lit ''postpone'', lit ''delay'', lit ''push'', Seqs [cps [273,
     7893, 105], Star Space, cps [108, 7883, 99, 104]], cps [104, 111, 227, 110], cps [108, 249,
     105], cps [99, 104, 117, 121, 7875, 110]], Bnd]"

definition RE_ATTACH_ATTACHED :: regex where
  "RE_ATTACH_ATTACHED = Seqs [Bnd, Alts [Seqs [lit ''attache'', Opt (lit ''d'')], lit
     ''attachment'', Seqs [lit ''see'', Star Space, lit ''attachment''], lit ''pfa'', lit
     ''enclosed'', Seqs [cps [273, 237, 110, 104], Star Space, cps [107, 232, 109]], Seqs [cps
     [116, 7879, 112], Star Space, cps [273, 237, 110, 104], Star Space, cps [107, 232, 109]]],
     Bnd]"

definition RE_ATTACH_EXPECT :: regex where
  "RE_ATTACH_EXPECT = Alts [Seqs [Alts [lit ''send'', lit ''resend'', lit ''provide'', lit
     ''share'', lit ''forward''], Star Space, Opt (Alts [lit ''me'', lit ''us'', lit ''it'']),
     Star Space, Opt (Seqs [lit ''the'', Star Space]), Alts [lit ''file'', Seqs [lit ''doc'', Opt
     (lit ''ument''), Opt (lit ''s'')], lit ''attachment'', lit ''link''], Bnd], Seqs [Alts [Seqs
     [lit ''vui'', Star Space, cps [108, 242, 110, 103]], lit ''xin''], Star Space, Alts [cps
     [103, 7917, 105], Seqs [cps [116, 114, 7843], Star Space, cps [108, 7901, 105]], Seqs [lit
     ''chia'', Star Space, lit ''se'']], Star Space, Alts [lit ''file'', Seqs [cps [116, 224,
     105], Star Space, cps [108, 105, 7879, 117]], Seqs [cps [273, 237, 110, 104], Star Space,
     cps [107, 232, 109]]], Bnd], Alts [Seqs [cps [115, 7869], Star Space, cps [103, 7917, 105]],
     Seqs [cps [103, 7917, 105], Star Space, lit ''sau''], Seqs [cps [99, 104, 7901], Star Space,
     lit ''file'']]]"

definition RE_URGENT :: regex where
  "RE_URGENT = Seqs [Bnd, Alts [lit ''urgent'', lit ''asap'', lit ''eod'', Seqs [lit ''by'',
     Star Space, lit ''eod''], Seqs [lit ''by'', Star Space, lit ''tomorrow''], lit ''today'',
     cps [107, 104, 7849, 110], cps [103, 7845, 112], lit ''ngay'', Seqs [lit ''trong'', Star
     Space, cps [110, 103, 224, 121]], Seqs [cps [99, 117, 7889, 105], Star Space, cps [110, 103,
     224, 121]], Seqs [cps [115, 7899, 109], Star Space, cps [110, 104, 7845, 116]]], Bnd]"

definition RE_LOW :: regex where
  "RE_LOW = Seqs [Bnd, Alts [Seqs [lit ''no'', Star Space, lit ''rush''], lit ''whenever'',
     Seqs [lit ''when'', Star Space, lit ''free''], Seqs [cps [108, 250, 99], Star Space, cps
     [114, 7843, 110, 104]], Seqs [cps [107, 104, 244, 110, 103], Star Space, cps [118, 7897,
     105]]], Bnd]"

definition RE_TONE_POS :: regex where
  "RE_TONE_POS = Seqs [Bnd, Alts [lit ''thanks'', Seqs [lit ''thank'', Star Space, lit
     ''you''], lit ''appreciate'', Seqs [lit ''much'', Star Space, lit ''appreciated''], lit
     ''cheers'', Seqs [cps [99, 7843, 109], Star Space, cps [417, 110]], Seqs [cps [116, 114,
     226, 110], Star Space, cps [116, 114, 7885, 110, 103]], Seqs [cps [116, 117, 121, 7879,
     116], Star Space, cps [118, 7901, 105]], Seqs [cps [114, 7845, 116], Star Space, cps [116,
     7889, 116]]], Bnd]"

definition RE_TONE_FRUS :: regex where
  "RE_TONE_FRUS = Seqs [Bnd, Alts [lit ''sorry'', Seqs [lit ''apolog'', Alts [lit ''y'', lit
     ''ise'', lit ''ize'']], Seqs [lit ''frustrat'', Alts [lit ''ed'', lit ''ing'']], Seqs [lit
     ''not'', Star Space, lit ''happy''], lit ''angry'', Seqs [lit ''delay'', Opt (lit ''ed'')],
     lit ''blocked'', lit ''issue'', lit ''problem'', Seqs [lit ''xin'', Star Space, cps [108,
     7895, 105]], Seqs [cps [107, 104, 244, 110, 103], Star Space, cps [104, 224, 105], Star
     Space, cps [108, 242, 110, 103]], cps [98, 7921, 99], cps [99, 104, 7853, 109], Seqs [cps
     [116, 114, 7909, 99], Star Space, cps [116, 114, 7863, 99]], Seqs [cps [118, 7845, 110],
     Star Space, cps [273, 7873]]], Bnd]"

definition RE_FOLLOWUP :: regex where
  "RE_FOLLOWUP = Seqs [Bnd, Alts [Seqs [lit ''follow'', Opt (lit ''-''), lit ''up''], Seqs [lit
     ''gentle'', Star Space, lit ''reminder''], lit ''ping'', cps [110, 104, 7855, 99]], Bnd]"

definition RE_RESOLVED :: regex where
  "RE_RESOLVED = Seqs [Bnd, Alts [lit ''resolved'', lit ''fixed'', lit ''done'', lit
     ''completed'', lit ''closed'', lit ''xong'', Seqs [cps [104, 111, 224, 110], Star Space, cps
     [116, 7845, 116]], Seqs [cps [273, 227], Star Space, cps [120, 7917], Star Space, cps [108,
     253]]], Bnd]"

definition RE_REVIEW :: regex where
  "RE_REVIEW = Seqs [Bnd, Alts [lit ''review'', lit ''approve'', lit ''approval'', cps [100,
     117, 121, 7879, 116], Seqs [cps [107, 105, 7875, 109], Star Space, lit ''tra''], Seqs [cps
     [120, 225, 99], Star Space, cps [110, 104, 7853, 110]]], Bnd]"

definition RE_EDIT :: regex where
  "RE_EDIT = Seqs [Bnd, Alts [lit ''edit'', lit ''revise'', lit ''revision'', Seqs [cps [99,
     104, 7881, 110, 104], Star Space, cps [115, 7917, 97]], cps [115, 7917, 97]], Bnd]"

definition RE_PROVIDE_DOCS :: regex where
  "RE_PROVIDE_DOCS = Seqs [Bnd, Alts [Seqs [lit ''doc'', Opt (lit ''ument''), Opt (lit ''s'')],
     lit ''file'', Seqs [cps [116, 224, 105], Star Space, cps [108, 105, 7879, 117]]], Bnd]"

definition RE_MEET :: regex where
  "RE_MEET = Seqs [Bnd, Alts [Seqs [lit ''meet'', Opt (lit ''ing'')], lit ''schedule'', lit
     ''call'', cps [104, 7885, 112], cps [108, 7883, 99, 104], lit ''zoom''], Bnd]"

section \<open>Data model: thread data as decoded from JSON\<close>

text \<open>
  The input is the JSON object \<open>{"thread": {"subject": ..., "messages": [{"timestamp": ...,
  "from": ..., "to": ..., "body": ...}, ...]}}\<close>. Every key may be absent, or present with
  the value \<open>null\<close> (Python's \<open>None\<close>), or present with a value of its type; the code
  treats the three cases differently, so a field keeps all three. Values of other JSON types
  are outside the data model.
\<close>

datatype 'a field = Absent | Null | Val 'a

record message =
  m_timestamp :: "str field"
  m_from :: "str field"
  m_to :: "str list field"
  m_body :: "str field"

record thread =
  subject :: "str field"
  messages :: "message list field"

text \<open>The top-level value: \<open>null\<close>, or an object with its \<open>thread\<close> key.\<close>

datatype data = DNull | DObj "thread field"

text \<open>\<open>d.get(key)\<close> yields \<open>None\<close> for an absent key and \<open>d.get(key, default)\<close> the default.\<close>

definition get_none :: "'a field \<Rightarrow> 'a field" where
  "get_none f = (case f of Absent \<Rightarrow> Null | Null \<Rightarrow> Null | Val v \<Rightarrow> Val v)"

definition get_default :: "'a field \<Rightarrow> 'a \<Rightarrow> 'a field" where
  "get_default f d = (case f of Absent \<Rightarrow> Val d | Null \<Rightarrow> Null | Val v \<Rightarrow> Val v)"

text \<open>\<open>x or []\<close> on a value that is \<open>None\<close> or a sequence: \<open>None\<close> and the empty sequence are falsy.\<close>

definition or_empty :: "'a list field \<Rightarrow> 'a list" where
  "or_empty f = (case f of Absent \<Rightarrow> [] | Null \<Rightarrow> [] | Val v \<Rightarrow> v)"

definition truthy :: "'a list field \<Rightarrow> bool" where
  "truthy f = (case f of Absent \<Rightarrow> False | Null \<Rightarrow> False | Val v \<Rightarrow> v \<noteq> [])"

text \<open>A message dictionary is truthy when it has at least one key.\<close>

definition msg_truthy :: "message \<Rightarrow> bool" where
  "msg_truthy m = (m_timestamp m \<noteq> Absent \<or> m_from m \<noteq> Absent \<or> m_to m \<noteq> Absent \<or> m_body m \<noteq> Absent)"

section \<open>\<open>rules.py\<close>: helpers and \<open>classify_labels\<close>\<close>

text \<open>\<open>_lower(s)\<close>: \<open>s.lower()\<close> for a string, the empty string for anything else.\<close>

definition lower :: "ucd \<Rightarrow> str field \<Rightarrow> str" where
  "lower U s = (case s of Val v \<Rightarrow> str_lower U v | Null \<Rightarrow> [] | Absent \<Rightarrow> [])"

text \<open>\<open>" ".join(xs)\<close>\<close>

fun join_space :: "str list \<Rightarrow> str" where
  "join_space [] = []"
| "join_space [x] = x"
| "join_space (x # y # ys) = x @ [32] @ join_space (y # ys)"

text \<open>\<open>xs[-k:]\<close>: the last \<open>k\<close> elements, all of them when \<open>k\<close> is 0 or exceeds the length.\<close>

definition last_k :: "nat \<Rightarrow> 'a list \<Rightarrow> 'a list" where
  "last_k k xs = (if k = 0 then xs else drop (length xs - k) xs)"

definition last_texts :: "ucd \<Rightarrow> message list \<Rightarrow> nat \<Rightarrow> str list" where
  "last_texts U msgs k =
     (let bodies = map (\<lambda>m. lower U (get_default (m_body m) []))
                       (filter (\<lambda>m. msg_truthy m \<and> truthy (get_none (m_body m))) msgs)
      in if bodies \<noteq> [] then last_k k bodies else [])"

record label =
  request_type :: string
  urgency :: string
  thread_state :: string
  scheduling :: string
  attachments :: "string list"
  tone :: string

definition classify_labels :: "ucd \<Rightarrow> str \<Rightarrow> message list \<Rightarrow> label" where
  "classify_labels U subject_str msgs =
     (let subj = lower U (Val subject_str);
          bodies = map (\<lambda>m. lower U (get_default (m_body m) []))
                       (filter (\<lambda>m. truthy (get_none (m_body m))) msgs);
          all_text = join_space (bodies @ [subj]);
          last = last_texts U msgs 3;
          last1 = (if last \<noteq> [] then List.last last else []);
          last_any = join_space last;
          \<comment> \<open>Scheduling outcome (Confirm > Reschedule > Propose > None)\<close>
          scheduling =
            (if re_search U RE_TIME_CONFIRM last_any then ''CONFIRMED_TIME''
             else if re_search U RE_TIME_RESCHED last_any then ''RESCHEDULE''
             else if re_search U RE_TIME_PROPOSE all_text then ''PROPOSED_TIME''
             else ''NO_MEETING'');
          \<comment> \<open>Request type (priority: meet > provide docs > review > edit > info)\<close>
          request_type =
            (if re_search U RE_MEET all_text
                \<or> scheduling \<in> {''PROPOSED_TIME'', ''CONFIRMED_TIME'', ''RESCHEDULE''}
             then ''SCHEDULE/MEET''
             else if re_search U RE_ATTACH_EXPECT all_text \<and> \<not> re_search U RE_ATTACH_ATTACHED all_text
             then ''PROVIDE_DOCS''
             else if re_search U RE_REVIEW all_text then ''REVIEW/APPROVE''
             else if re_search U RE_EDIT all_text then ''EDIT/REVISE''
             else if re_search U RE_PROVIDE_DOCS all_text then ''PROVIDE_DOCS''
             else ''INFO_ONLY'');
          \<comment> \<open>Attachments (multi-label)\<close>
          attachments0 = [];
          attachments1 = (if re_search U RE_ATTACH_ATTACHED all_text
                          then attachments0 @ [''ATTACHED''] else attachments0);
          attachments2 = (if re_search U RE_ATTACH_EXPECT all_text
                          then attachments1 @ [''EXPECTING_ATTACHMENT''] else attachments1);
          attachments = (if attachments2 = [] then [''NONE_MENTIONED''] else attachments2);
          \<comment> \<open>Urgency\<close>
          urgency =
            (if re_search U RE_URGENT all_text then ''URGENT-24H''
             else if re_search U RE_LOW all_text then ''LOW-120H''
             else ''STD-48H'');
          \<comment> \<open>Tone (prefer last message)\<close>
          tone =
            (if re_search U RE_TONE_FRUS last1 \<and> \<not> re_search U RE_TONE_POS last1 then ''FRUSTRATED''
             else if re_search U RE_TONE_POS last1 \<and> \<not> re_search U RE_TONE_FRUS last1 then ''POSITIVE''
             else if re_search U RE_TONE_POS last_any \<and> \<not> re_search U RE_TONE_FRUS last_any
             then ''POSITIVE''
             else if re_search U RE_TONE_FRUS last_any \<and> \<not> re_search U RE_TONE_POS last_any
             then ''FRUSTRATED''
             else ''NEUTRAL'');
          \<comment> \<open>Thread state\<close>
          n = length msgs;
          thread_state =
            (if re_search U RE_RESOLVED last_any then ''RESOLVED''
             else if re_search U RE_FOLLOWUP all_text \<or> n > 1 then ''FOLLOW-UP''
             else ''NEW'')
      in \<lparr> request_type = request_type, urgency = urgency, thread_state = thread_state,
           scheduling = scheduling, attachments = attachments, tone = tone \<rparr>)"

section \<open>\<open>classify_cli.py\<close>: normalisation, sorting, thread identifier\<close>

datatype error = KeyError | TypeError | UnicodeEncodeError

definition bind_err :: "error + 'a \<Rightarrow> ('a \<Rightarrow> error + 'b) \<Rightarrow> error + 'b" where
  "bind_err r f = (case r of Inl e \<Rightarrow> Inl e | Inr v \<Rightarrow> f v)"

text \<open>
  \<open>msg.setdefault(key, default)\<close> stores the default only when the key is absent; a key
  that is present with the value \<open>None\<close> keeps it.
\<close>

definition setdefault :: "'a field \<Rightarrow> 'a \<Rightarrow> 'a field" where
  "setdefault f d = (case f of Absent \<Rightarrow> Val d | Null \<Rightarrow> Null | Val v \<Rightarrow> Val v)"

definition fill_defaults :: "message \<Rightarrow> message" where
  "fill_defaults msg =
     \<lparr> m_timestamp = setdefault (m_timestamp msg) [],
       m_from = setdefault (m_from msg) [],
       m_to = setdefault (m_to msg) [],
       m_body = setdefault (m_body msg) [] \<rparr>"

text \<open>
  \<open>normalize_thread\<close> updates the message dictionaries of its argument in place and returns
  the very list it was given. The model returns the pair \<open>(subject, messages)\<close> together with
  the thread dictionary as the caller sees it afterwards.
\<close>

definition normalize_thread :: "thread \<Rightarrow> (str \<times> message list) \<times> thread" where
  "normalize_thread t =
     (let subject_str = or_empty (get_default (subject t) []);
          msgs = map fill_defaults (or_empty (get_default (messages t) []))
      in ((subject_str, msgs),
          t\<lparr> messages := (case messages t of Val ms \<Rightarrow> Val (map fill_defaults ms)
                                           | Null \<Rightarrow> Null | Absent \<Rightarrow> Absent) \<rparr>))"

text \<open>
  \<open>sorted(messages, key=lambda m: m.get("timestamp", "") or "")\<close>: a stable sort on the key,
  strings compared code point by code point, a proper prefix first. It builds a new list.
\<close>

definition ts_key :: "message \<Rightarrow> str" where
  "ts_key m = or_empty (get_default (m_timestamp m) [])"

definition sort_messages :: "message list \<Rightarrow> message list" where
  "sort_messages msgs = sort_key ts_key msgs"

subsection \<open>UTF-8 and SHA-1\<close>

type_synonym byte = "8 word"
type_synonym u32 = "32 word"

text \<open>
  \<open>s.encode("utf-8")\<close> raises \<open>UnicodeEncodeError\<close> on a surrogate code point (which
  \<open>json.load\<close> can produce from an escape such as \<open>\ud800\<close>). Code points above \<open>0x10FFFF\<close>
  do not occur in a Python string.
\<close>

definition utf8_cp :: "nat \<Rightarrow> error + byte list" where
  "utf8_cp c =
     (if c < 0x80 then Inr [of_nat c]
      else if c < 0x800 then Inr [of_nat (0xC0 + c div 64), of_nat (0x80 + c mod 64)]
      else if 0xD800 \<le> c \<and> c \<le> 0xDFFF then Inl UnicodeEncodeError
      else if c < 0x10000
      then Inr [of_nat (0xE0 + c div 4096), of_nat (0x80 + c div 64 mod 64), of_nat (0x80 + c mod 64)]
      else Inr [of_nat (0xF0 + c div 262144), of_nat (0x80 + c div 4096 mod 64),
                of_nat (0x80 + c div 64 mod 64), of_nat (0x80 + c mod 64)])"

fun utf8_encode :: "str \<Rightarrow> error + byte list" where
  "utf8_encode [] = Inr []"
| "utf8_encode (c # cs) =
     bind_err (utf8_cp c) (\<lambda>bs. bind_err (utf8_encode cs) (\<lambda>rest. Inr (bs @ rest)))"

text \<open>\<open>hashlib.sha1\<close> (FIPS 180-4) on 32-bit words, and \<open>hexdigest()\<close>.\<close>

fun be_bytes :: "nat \<Rightarrow> nat \<Rightarrow> byte list" where
  "be_bytes 0 n = []"
| "be_bytes (Suc k) n = be_bytes k (n div 256) @ [of_nat (n mod 256)]"

definition sha1_pad :: "byte list \<Rightarrow> byte list" where
  "sha1_pad bs =
     bs @ [0x80] @ replicate ((119 - length bs mod 64) mod 64) 0 @ be_bytes 8 (8 * length bs)"

definition be32 :: "byte list \<Rightarrow> u32" where
  "be32 bs = foldl (\<lambda>acc b. push_bit 8 acc OR ucast b) 0 bs"

fun split_blocks :: "nat \<Rightarrow> nat \<Rightarrow> 'a list \<Rightarrow> 'a list list" where
  "split_blocks 0 k bs = []"
| "split_blocks (Suc n) k bs = take k bs # split_blocks n k (drop k bs)"

definition sha1_f :: "nat \<Rightarrow> u32 \<Rightarrow> u32 \<Rightarrow> u32 \<Rightarrow> u32" where
  "sha1_f t b c d =
     (if t < 20 then (b AND c) OR (NOT b AND d)
      else if t < 40 then b XOR c XOR d
      else if t < 60 then (b AND c) OR (b AND d) OR (c AND d)
      else b XOR c XOR d)"

definition sha1_k :: "nat \<Rightarrow> u32" where
  "sha1_k t = (if t < 20 then 0x5A827999 else if t < 40 then 0x6ED9EBA1
               else if t < 60 then 0x8F1BBCDC else 0xCA62C1D6)"

fun schedule :: "nat \<Rightarrow> u32 list \<Rightarrow> u32 list" where
  "schedule 0 w = w"
| "schedule (Suc n) w =
     schedule n (w @ [word_rotl 1 (w ! (length w - 3) XOR w ! (length w - 8)
                                   XOR w ! (length w - 14) XOR w ! (length w - 16))])"

type_synonym sha1_state = "u32 \<times> u32 \<times> u32 \<times> u32 \<times> u32"

definition sha1_round :: "u32 list \<Rightarrow> nat \<Rightarrow> sha1_state \<Rightarrow> sha1_state" where
  "sha1_round w t = (\<lambda>(a, b, c, d, e).
     (word_rotl 5 a + sha1_f t b c d + e + sha1_k t + w ! t, a, word_rotl 30 b, c, d))"

definition sha1_block :: "sha1_state \<Rightarrow> byte list \<Rightarrow> sha1_state" where
  "sha1_block h block =
     (let w = schedule 64 (map be32 (split_blocks 16 4 block))
      in case (h, fold (sha1_round w) [0..<80] h) of
           ((h0, h1, h2, h3, h4), (a, b, c, d, e)) \<Rightarrow> (h0 + a, h1 + b, h2 + c, h3 + d, h4 + e))"

definition sha1 :: "byte list \<Rightarrow> sha1_state" where
  "sha1 bs =
     (let p = sha1_pad bs
      in fold (\<lambda>block h. sha1_block h block) (split_blocks (length p div 64) 64 p)
           (0x67452301, 0xEFCDAB89, 0x98BADCFE, 0x10325476, 0xC3D2E1F0))"

definition hex_digit :: "nat \<Rightarrow> char" where
  "hex_digit n = ''0123456789abcdef'' ! (n mod 16)"

fun hex :: "nat \<Rightarrow> nat \<Rightarrow> string" where
  "hex 0 n = []"
| "hex (Suc k) n = hex k (n div 16) @ [hex_digit n]"

definition hexdigest :: "sha1_state \<Rightarrow> string" where
  "hexdigest = (\<lambda>(h0, h1, h2, h3, h4).
     hex 8 (unat h0) @ hex 8 (unat h1) @ hex 8 (unat h2) @ hex 8 (unat h3) @ hex 8 (unat h4))"

subsection \<open>\<open>compute_thread_id\<close> and \<open>classify_thread\<close>\<close>

text \<open>\<open>m["timestamp"]\<close>: \<open>KeyError\<close> when the key is absent; the value may be \<open>None\<close>.\<close>

definition item_timestamp :: "message \<Rightarrow> error + str option" where
  "item_timestamp m =
     (case m_timestamp m of Absent \<Rightarrow> Inl KeyError | Null \<Rightarrow> Inr None | Val s \<Rightarrow> Inr (Some s))"

text \<open>\<open>s + x\<close> for a string \<open>s\<close>: \<open>TypeError\<close> when \<open>x\<close> is \<open>None\<close>.\<close>

definition str_add :: "str \<Rightarrow> str option \<Rightarrow> error + str" where
  "str_add s x = (case x of None \<Rightarrow> Inl TypeError | Some t \<Rightarrow> Inr (s @ t))"

definition compute_thread_id :: "str \<Rightarrow> message list \<Rightarrow> error + string" where
  "compute_thread_id subject_str messages_sorted =
     bind_err (if messages_sorted \<noteq> [] then item_timestamp (hd messages_sorted) else Inr (Some []))
       (\<lambda>first_ts.
     bind_err (if messages_sorted \<noteq> [] then item_timestamp (last messages_sorted) else Inr (Some []))
       (\<lambda>last_ts.
     bind_err (str_add subject_str first_ts) (\<lambda>s1.
     bind_err (str_add s1 last_ts) (\<lambda>s2.
     bind_err (utf8_encode s2) (\<lambda>basis.
     Inr (hexdigest (sha1 basis)))))))"

record result =
  thread_id :: string
  label :: label

text \<open>\<open>(data or {}).get("thread", {}) or {}\<close>\<close>

definition thread_of :: "data \<Rightarrow> thread" where
  "thread_of d =
     (case d of DNull \<Rightarrow> \<lparr> subject = Absent, messages = Absent \<rparr>
      | DObj f \<Rightarrow> (case f of Absent \<Rightarrow> \<lparr> subject = Absent, messages = Absent \<rparr>
                             | Null \<Rightarrow> \<lparr> subject = Absent, messages = Absent \<rparr>
                             | Val t \<Rightarrow> t))"

definition put_thread :: "data \<Rightarrow> thread \<Rightarrow> data" where
  "put_thread d t' = (case d of DNull \<Rightarrow> DNull
      | DObj f \<Rightarrow> (case f of Absent \<Rightarrow> DObj Absent | Null \<Rightarrow> DObj Null | Val t \<Rightarrow> DObj (Val t')))"

text \<open>
  The result of \<open>classify_thread\<close>, or the exception it raises, paired with the caller's
  \<open>data\<close> as it is after the call.
\<close>

definition classify_thread :: "ucd \<Rightarrow> data \<Rightarrow> (error + result) \<times> data" where
  "classify_thread U d =
     (let t = thread_of d;
          ((subject_str, msgs), t') = normalize_thread t;
          messages_sorted = sort_messages msgs
      in (bind_err (compute_thread_id subject_str messages_sorted) (\<lambda>tid.
            Inr \<lparr> thread_id = tid, label = classify_labels U subject_str messages_sorted \<rparr>),
          put_thread d t'))"

section \<open>The text views of the specification\<close>

text \<open>
  The specification describes three views of a thread, all case-folded: \<open>all_text\<close>, every
  non-empty message body and then the subject, joined by spaces; \<open>tail\<close>, the up-to-3 most
  recent non-empty bodies, joined by spaces; \<open>last\<close>, the most recent non-empty body, or the
  empty string. They are written here from those words; the theorems on \<open>classify_labels\<close>
  relate the labels the code computes to them.
\<close>

definition nonempty_bodies :: "ucd \<Rightarrow> message list \<Rightarrow> str list" where
  "nonempty_bodies U msgs =
     concat (map (\<lambda>m. case m_body m of
                         Val b \<Rightarrow> (if b = [] then [] else [str_lower U b])
                       | Null \<Rightarrow> [] | Absent \<Rightarrow> []) msgs)"

definition all_text_view :: "ucd \<Rightarrow> str \<Rightarrow> message list \<Rightarrow> str" where
  "all_text_view U s msgs = join_space (nonempty_bodies U msgs @ [str_lower U s])"

definition tail_view :: "ucd \<Rightarrow> message list \<Rightarrow> str" where
  "tail_view U msgs =
     join_space (drop (length (nonempty_bodies U msgs) - 3) (nonempty_bodies U msgs))"

definition last_view :: "ucd \<Rightarrow> message list \<Rightarrow> str" where
  "last_view U msgs = (case rev (nonempty_bodies U msgs) of [] \<Rightarrow> [] | b # bs \<Rightarrow> b)"

text \<open>
  The exclusive-match rule of the tone dimension at one scope: conclusive only when exactly
  one of the two patterns matches.
\<close>

definition exclusive_tone :: "ucd \<Rightarrow> str \<Rightarrow> string option" where
  "exclusive_tone U view =
     (if re_search U RE_TONE_FRUS view \<and> \<not> re_search U RE_TONE_POS view then Some ''FRUSTRATED''
      else if re_search U RE_TONE_POS view \<and> \<not> re_search U RE_TONE_FRUS view then Some ''POSITIVE''
      else None)"

text \<open>A message as a mail client would send it, for the examples.\<close>

definition text_msg :: "string \<Rightarrow> string \<Rightarrow> message" where
  "text_msg ts b = \<lparr> m_timestamp = Val (cp ts), m_from = Absent, m_to = Absent, m_body = Val (cp b) \<rparr>"

section \<open>Notions of the specification about threads\<close>

text \<open>
  A normalised message has its four fields filled with values; two messages differ in their
  body at most when the other three fields agree. The first and last timestamp of a message
  list are the empty string when there is no message.
\<close>

definition differ_in_body :: "message \<Rightarrow> message \<Rightarrow> bool" where
  "differ_in_body m m' =
     (m_timestamp m' = m_timestamp m \<and> m_from m' = m_from m \<and> m_to m' = m_to m)"

definition normalized :: "message \<Rightarrow> bool" where
  "normalized m = (case (m_timestamp m, m_from m, m_to m, m_body m) of
                     (Val ts, Val f, Val t, Val b) \<Rightarrow> True | _ \<Rightarrow> False)"

definition first_timestamp :: "message list \<Rightarrow> str" where
  "first_timestamp msgs = (case msgs of [] \<Rightarrow> [] | m # ms \<Rightarrow> ts_key m)"

definition last_timestamp :: "message list \<Rightarrow> str" where
  "last_timestamp msgs = (case rev msgs of [] \<Rightarrow> [] | m # ms \<Rightarrow> ts_key m)"

text \<open>
  What a call may change in the caller's data: a message is complete when it has its four
  keys; \<open>only_defaults_added m m'\<close> says that \<open>m'\<close> is \<open>m\<close> with each absent key added
  with its default and every present field, null ones included, as it was; and
  \<open>changed_by_defaults d d'\<close> says that \<open>d'\<close> is \<open>d\<close> up to that change in each message,
  with the same subject and the same number and order of messages.
\<close>

definition complete :: "message \<Rightarrow> bool" where
  "complete m = (m_timestamp m \<noteq> Absent \<and> m_from m \<noteq> Absent \<and> m_to m \<noteq> Absent \<and> m_body m \<noteq> Absent)"

definition only_defaults_added :: "message \<Rightarrow> message \<Rightarrow> bool" where
  "only_defaults_added m m' =
     (m_timestamp m' = (if m_timestamp m = Absent then Val [] else m_timestamp m)
      \<and> m_from m' = (if m_from m = Absent then Val [] else m_from m)
      \<and> m_to m' = (if m_to m = Absent then Val [] else m_to m)
      \<and> m_body m' = (if m_body m = Absent then Val [] else m_body m))"

fun messages_changed_by_defaults :: "message list field \<Rightarrow> message list field \<Rightarrow> bool" where
  "messages_changed_by_defaults (Val ms) (Val ms') = list_all2 only_defaults_added ms ms'"
| "messages_changed_by_defaults Null Null = True"
| "messages_changed_by_defaults Absent Absent = True"
| "messages_changed_by_defaults f f' = False"

fun changed_by_defaults :: "data \<Rightarrow> data \<Rightarrow> bool" where
  "changed_by_defaults (DObj (Val t)) (DObj (Val t')) =
     (subject t' = subject t \<and> messages_changed_by_defaults (messages t) (messages t'))"
| "changed_by_defaults (DObj Null) (DObj Null) = True"
| "changed_by_defaults (DObj Absent) (DObj Absent) = True"
| "changed_by_defaults DNull DNull = True"
| "changed_by_defaults d d' = False"

definition messages_of :: "data \<Rightarrow> message list" where
  "messages_of d = or_empty (messages (thread_of d))"

text \<open>The label of the empty thread (scenario 1 of the specification).\<close>

definition default_label :: label where
  "default_label = \<lparr> request_type = ''INFO_ONLY'', urgency = ''STD-48H'', thread_state = ''NEW'',
     scheduling = ''NO_MEETING'', attachments = [''NONE_MENTIONED''], tone = ''NEUTRAL'' \<rparr>"

section \<open>The labels in terms of the text views\<close>

lemmas eval_defs = cp_def lit_def cps_def is_word_def at_boundary_def one_char_def re_search_def
  ascii_ucd_def ascii_lower_def str_lower_def text_msg_def nonempty_bodies_def all_text_view_def
  tail_view_def last_view_def

lemma src_bodies:
  "map (\<lambda>m. lower U (get_default (m_body m) [])) (filter (\<lambda>m. truthy (get_none (m_body m))) msgs)
   = nonempty_bodies U msgs"
  by (induction msgs)
     (auto simp: nonempty_bodies_def lower_def get_default_def get_none_def truthy_def
           split: field.splits)

lemma src_bodies_truthy:
  "map (\<lambda>m. lower U (get_default (m_body m) []))
       (filter (\<lambda>m. msg_truthy m \<and> truthy (get_none (m_body m))) msgs)
   = nonempty_bodies U msgs"
  by (induction msgs)
     (auto simp: nonempty_bodies_def lower_def get_default_def get_none_def truthy_def msg_truthy_def
           split: field.splits)

lemma src_last_texts:
  "last_texts U msgs 3 = drop (length (nonempty_bodies U msgs) - 3) (nonempty_bodies U msgs)"
  by (simp add: last_texts_def Let_def src_bodies_truthy last_k_def)

lemma src_all_text:
  "join_space (map (\<lambda>m. lower U (get_default (m_body m) []))
                   (filter (\<lambda>m. truthy (get_none (m_body m))) msgs) @ [lower U (Val s)])
   = all_text_view U s msgs"
  unfolding src_bodies all_text_view_def by (simp add: lower_def)

lemma src_last_any: "join_space (last_texts U msgs 3) = tail_view U msgs"
  by (simp add: src_last_texts tail_view_def)

lemma last_of_rev: "xs \<noteq> [] \<Longrightarrow> (case rev xs of [] \<Rightarrow> [] | b # bs \<Rightarrow> b) = last xs"
  by (cases xs rule: rev_cases) auto

lemma src_last1:
  "(if last_texts U msgs 3 \<noteq> [] then last (last_texts U msgs 3) else []) = last_view U msgs"
proof (cases "nonempty_bodies U msgs = []")
  case True
  then show ?thesis by (simp add: src_last_texts last_view_def)
next
  case False
  then have lt: "length (nonempty_bodies U msgs) - 3 < length (nonempty_bodies U msgs)"
    by (cases "nonempty_bodies U msgs") auto
  have ne: "drop (length (nonempty_bodies U msgs) - 3) (nonempty_bodies U msgs) \<noteq> []"
    using lt by (simp del: diff_less)
  have "last (drop (length (nonempty_bodies U msgs) - 3) (nonempty_bodies U msgs))
        = last (nonempty_bodies U msgs)"
    using lt by (rule last_drop)
  with ne False show ?thesis
    by (simp add: src_last_texts last_view_def last_of_rev)
qed

lemma classify_labels_views:
  "classify_labels U s msgs =
     (let all_text = all_text_view U s msgs; last_any = tail_view U msgs; last1 = last_view U msgs;
          sched = (if re_search U RE_TIME_CONFIRM last_any then ''CONFIRMED_TIME''
             else if re_search U RE_TIME_RESCHED last_any then ''RESCHEDULE''
             else if re_search U RE_TIME_PROPOSE all_text then ''PROPOSED_TIME''
             else ''NO_MEETING'')
      in \<lparr> request_type =
            (if re_search U RE_MEET all_text
                \<or> sched \<in> {''PROPOSED_TIME'', ''CONFIRMED_TIME'', ''RESCHEDULE''}
             then ''SCHEDULE/MEET''
             else if re_search U RE_ATTACH_EXPECT all_text \<and> \<not> re_search U RE_ATTACH_ATTACHED all_text
             then ''PROVIDE_DOCS''
             else if re_search U RE_REVIEW all_text then ''REVIEW/APPROVE''
             else if re_search U RE_EDIT all_text then ''EDIT/REVISE''
             else if re_search U RE_PROVIDE_DOCS all_text then ''PROVIDE_DOCS''
             else ''INFO_ONLY''),
           urgency =
            (if re_search U RE_URGENT all_text then ''URGENT-24H''
             else if re_search U RE_LOW all_text then ''LOW-120H''
             else ''STD-48H''),
           thread_state =
            (if re_search U RE_RESOLVED last_any then ''RESOLVED''
             else if re_search U RE_FOLLOWUP all_text \<or> length msgs > 1 then ''FOLLOW-UP''
             else ''NEW''),
           scheduling = sched,
           attachments =
             (if re_search U RE_ATTACH_ATTACHED all_text
              then (if re_search U RE_ATTACH_EXPECT all_text
                    then [''ATTACHED'', ''EXPECTING_ATTACHMENT''] else [''ATTACHED''])
              else (if re_search U RE_ATTACH_EXPECT all_text
                    then [''EXPECTING_ATTACHMENT''] else [''NONE_MENTIONED''])),
           tone =
            (if re_search U RE_TONE_FRUS last1 \<and> \<not> re_search U RE_TONE_POS last1 then ''FRUSTRATED''
             else if re_search U RE_TONE_POS last1 \<and> \<not> re_search U RE_TONE_FRUS last1 then ''POSITIVE''
             else if re_search U RE_TONE_POS last_any \<and> \<not> re_search U RE_TONE_FRUS last_any
             then ''POSITIVE''
             else if re_search U RE_TONE_FRUS last_any \<and> \<not> re_search U RE_TONE_POS last_any
             then ''FRUSTRATED''
             else ''NEUTRAL'') \<rparr>)"
  unfolding classify_labels_def Let_def src_all_text src_last_any src_last1
  by simp

text \<open>
  Claim C3. The scheduling label is a strict priority cascade: \<open>CONFIRMED_TIME\<close> if the tail
  view matches the confirmation pattern, otherwise \<open>RESCHEDULE\<close> if the tail matches the
  reschedule pattern, otherwise \<open>PROPOSED_TIME\<close> if \<open>all_text\<close> matches the proposal pattern,
  otherwise \<open>NO_MEETING\<close>. In particular a thread whose tail contains a confirmation keyword
  and whose text also contains a reschedule keyword is \<open>CONFIRMED_TIME\<close>.
\<close>

theorem scheduling_cascade:
  "scheduling (classify_labels U s msgs) =
     (if re_search U RE_TIME_CONFIRM (tail_view U msgs) then ''CONFIRMED_TIME''
      else if re_search U RE_TIME_RESCHED (tail_view U msgs) then ''RESCHEDULE''
      else if re_search U RE_TIME_PROPOSE (all_text_view U s msgs) then ''PROPOSED_TIME''
      else ''NO_MEETING'')
   \<and> (re_search U RE_TIME_CONFIRM (tail_view U msgs)
        \<and> re_search U RE_TIME_RESCHED (all_text_view U s msgs)
      \<longrightarrow> scheduling (classify_labels U s msgs) = ''CONFIRMED_TIME'')"
  by (simp add: classify_labels_views Let_def)

theorem scheduling_cascade_witness:
  "re_search ascii_ucd RE_TIME_CONFIRM
     (tail_view ascii_ucd [text_msg ''2024-01-01'' ''Let's move the call to next week'',
                           text_msg ''2024-01-02'' ''Confirmed, see you then''])
   \<and> re_search ascii_ucd RE_TIME_RESCHED
     (all_text_view ascii_ucd (cp ''Call'')
        [text_msg ''2024-01-01'' ''Let's move the call to next week'',
         text_msg ''2024-01-02'' ''Confirmed, see you then''])
   \<and> scheduling (classify_labels ascii_ucd (cp ''Call'')
        [text_msg ''2024-01-01'' ''Let's move the call to next week'',
         text_msg ''2024-01-02'' ''Confirmed, see you then'']) = ''CONFIRMED_TIME''"
proof -
  let ?ms = "[text_msg ''2024-01-01'' ''Let's move the call to next week'',
              text_msg ''2024-01-02'' ''Confirmed, see you then'']"
  have h1: "re_search ascii_ucd RE_TIME_CONFIRM (tail_view ascii_ucd ?ms)"
    by (simp add: eval_defs RE_TIME_CONFIRM_def)
  have h2: "re_search ascii_ucd RE_TIME_RESCHED (all_text_view ascii_ucd (cp ''Call'') ?ms)"
    by (simp add: eval_defs RE_TIME_RESCHED_def)
  from scheduling_cascade [of ascii_ucd "cp ''Call''" ?ms] h1 h2 show ?thesis
    by blast
qed

text \<open>
  Claim C6. The request type is a strict first-match cascade: \<open>SCHEDULE/MEET\<close> if \<open>all_text\<close>
  matches the meeting terms or the scheduling label is not \<open>NO_MEETING\<close>; else
  \<open>PROVIDE_DOCS\<close> if \<open>all_text\<close> matches the expecting-attachment pattern and not the
  already-attached pattern; else \<open>REVIEW/APPROVE\<close>, \<open>EDIT/REVISE\<close>, \<open>PROVIDE_DOCS\<close> on the
  review, edit and document-noun terms in this order; else \<open>INFO_ONLY\<close>.
\<close>

theorem request_type_cascade:
  "request_type (classify_labels U s msgs) =
     (if re_search U RE_MEET (all_text_view U s msgs)
         \<or> scheduling (classify_labels U s msgs) \<noteq> ''NO_MEETING''
      then ''SCHEDULE/MEET''
      else if re_search U RE_ATTACH_EXPECT (all_text_view U s msgs)
              \<and> \<not> re_search U RE_ATTACH_ATTACHED (all_text_view U s msgs)
      then ''PROVIDE_DOCS''
      else if re_search U RE_REVIEW (all_text_view U s msgs) then ''REVIEW/APPROVE''
      else if re_search U RE_EDIT (all_text_view U s msgs) then ''EDIT/REVISE''
      else if re_search U RE_PROVIDE_DOCS (all_text_view U s msgs) then ''PROVIDE_DOCS''
      else ''INFO_ONLY'')"
  by (simp add: classify_labels_views Let_def)

theorem request_type_cascade_witness:
  "request_type (classify_labels ascii_ucd (cp ''Team sync'')
     [text_msg ''2024-01-01'' ''Can we meet Monday at 10:00? Please send the file too.''])
   = ''SCHEDULE/MEET''"
proof -
  let ?ms = "[text_msg ''2024-01-01'' ''Can we meet Monday at 10:00? Please send the file too.'']"
  have h: "re_search ascii_ucd RE_MEET (all_text_view ascii_ucd (cp ''Team sync'') ?ms)"
    by (simp add: eval_defs RE_MEET_def)
  from request_type_cascade [of ascii_ucd "cp ''Team sync''" ?ms] h show ?thesis
    by simp
qed

text \<open>
  Claim C7. The attachments of the returned label are never empty: they contain \<open>ATTACHED\<close>
  exactly when the already-attached pattern matches \<open>all_text\<close>, \<open>EXPECTING_ATTACHMENT\<close>
  exactly when the expect-attachment pattern matches it, and they are the single element
  \<open>NONE_MENTIONED\<close> exactly when neither pattern matches.
\<close>

theorem attachments_nonempty_exact:
  "attachments (classify_labels U s msgs) \<noteq> []
   \<and> (''ATTACHED'' \<in> set (attachments (classify_labels U s msgs))
        = re_search U RE_ATTACH_ATTACHED (all_text_view U s msgs))
   \<and> (''EXPECTING_ATTACHMENT'' \<in> set (attachments (classify_labels U s msgs))
        = re_search U RE_ATTACH_EXPECT (all_text_view U s msgs))
   \<and> ((attachments (classify_labels U s msgs) = [''NONE_MENTIONED''])
        = (\<not> re_search U RE_ATTACH_ATTACHED (all_text_view U s msgs)
           \<and> \<not> re_search U RE_ATTACH_EXPECT (all_text_view U s msgs)))"
  by (simp add: classify_labels_views Let_def)

theorem attachments_nonempty_exact_witness:
  "''EXPECTING_ATTACHMENT'' \<in> set (attachments (classify_labels ascii_ucd (cp ''Team sync'')
     [text_msg ''2024-01-01'' ''Can we meet Monday at 10:00? Please send the file too.'']))"
proof -
  let ?ms = "[text_msg ''2024-01-01'' ''Can we meet Monday at 10:00? Please send the file too.'']"
  have h: "re_search ascii_ucd RE_ATTACH_EXPECT (all_text_view ascii_ucd (cp ''Team sync'') ?ms)"
    by (simp add: eval_defs RE_ATTACH_EXPECT_def)
  from attachments_nonempty_exact [of ascii_ucd "cp ''Team sync''" ?ms] h show ?thesis
    by blast
qed

text \<open>
  Claim C8. The tone follows the exclusive-match cascade: the rule is applied to the last
  non-empty body; when it is not conclusive there (both patterns match, or neither) it is
  applied to the tail view; when no scope is conclusive the tone is \<open>NEUTRAL\<close>.
\<close>

theorem tone_cascade:
  "tone (classify_labels U s msgs) =
     (case exclusive_tone U (last_view U msgs) of
        Some t \<Rightarrow> t
      | None \<Rightarrow> (case exclusive_tone U (tail_view U msgs) of
                   Some t \<Rightarrow> t
                 | None \<Rightarrow> ''NEUTRAL''))"
  by (simp add: classify_labels_views Let_def exclusive_tone_def)

theorem tone_cascade_witness:
  "tone (classify_labels ascii_ucd (cp ''Status'')
     [text_msg ''2024-01-01'' ''Sorry for the delay, there was an issue'']) = ''FRUSTRATED''"
proof -
  let ?ms = "[text_msg ''2024-01-01'' ''Sorry for the delay, there was an issue'']"
  have h: "exclusive_tone ascii_ucd (last_view ascii_ucd ?ms) = Some ''FRUSTRATED''"
    by (simp add: eval_defs exclusive_tone_def RE_TONE_FRUS_def RE_TONE_POS_def)
  from tone_cascade [of ascii_ucd "cp ''Status''" ?ms] h show ?thesis
    by simp
qed

section \<open>Sorting and the thread identifier\<close>

lemma hex_digit_in: "hex_digit n \<in> set ''0123456789abcdef''"
proof -
  have "n mod 16 < length ''0123456789abcdef''" by simp
  then show ?thesis unfolding hex_digit_def by (rule nth_mem)
qed

lemma length_hex: "length (hex k n) = k"
  by (induction k arbitrary: n) auto

lemma set_hex: "set (hex k n) \<subseteq> set ''0123456789abcdef''"
proof (induction k arbitrary: n)
  case 0
  then show ?case by simp
next
  case (Suc k)
  from Suc [of "n div 16"] hex_digit_in [of n] show ?case by simp
qed

lemma length_hexdigest: "length (hexdigest h) = 40"
  by (cases h) (simp add: hexdigest_def length_hex)

lemma set_hexdigest: "c \<in> set (hexdigest h) \<Longrightarrow> c \<in> set ''0123456789abcdef''"
proof -
  assume c: "c \<in> set (hexdigest h)"
  obtain h0 h1 h2 h3 h4 where h: "h = (h0, h1, h2, h3, h4)" by (cases h) auto
  from c have "c \<in> set (hex 8 (unat h0)) \<or> c \<in> set (hex 8 (unat h1)) \<or> c \<in> set (hex 8 (unat h2))
      \<or> c \<in> set (hex 8 (unat h3)) \<or> c \<in> set (hex 8 (unat h4))"
    unfolding h hexdigest_def by (simp only: prod.case set_append Un_iff)
  then show ?thesis using set_hex by blast
qed

lemma compute_thread_id_shape:
  assumes "compute_thread_id s msgs = Inr tid"
  shows "length tid = 40 \<and> set tid \<subseteq> set ''0123456789abcdef''"
proof -
  from assms obtain basis where t: "tid = hexdigest (sha1 basis)"
    unfolding compute_thread_id_def bind_err_def by (auto split: sum.splits if_splits)
  show ?thesis unfolding t using length_hexdigest set_hexdigest by blast
qed

lemma compute_thread_id_normalized:
  assumes "list_all normalized msgs"
  shows "compute_thread_id s msgs =
           bind_err (utf8_encode (s @ first_timestamp msgs @ last_timestamp msgs))
                    (\<lambda>basis. Inr (hexdigest (sha1 basis)))"
proof (cases msgs rule: rev_cases)
  case Nil
  then show ?thesis
    by (simp add: compute_thread_id_def first_timestamp_def last_timestamp_def str_add_def bind_err_def)
next
  case (snoc ys y)
  then have ne: "msgs \<noteq> []" by simp
  then obtain x xs where xs: "msgs = x # xs" by (cases msgs) auto
  from assms xs have nx: "normalized x" by simp
  from assms snoc have ny: "normalized y" by simp
  from nx obtain tx where tx: "m_timestamp x = Val tx"
    by (auto simp: normalized_def split: field.splits)
  from ny obtain ty where ty: "m_timestamp y = Val ty"
    by (auto simp: normalized_def split: field.splits)
  have hd: "hd msgs = x" using xs by simp
  have la: "last msgs = y" using snoc by simp
  have ft: "first_timestamp msgs = tx"
    using xs tx by (simp add: first_timestamp_def ts_key_def get_default_def or_empty_def)
  have lt: "last_timestamp msgs = ty"
    using snoc ty by (simp add: last_timestamp_def ts_key_def get_default_def or_empty_def)
  show ?thesis
    unfolding compute_thread_id_def ft lt hd la
    using ne tx ty by (simp add: item_timestamp_def str_add_def bind_err_def)
qed

lemma differ_in_body_key: "differ_in_body m m' \<Longrightarrow> ts_key m' = ts_key m"
  by (simp add: differ_in_body_def ts_key_def)

lemma insort_differ_in_body:
  assumes "list_all2 differ_in_body xs ys" and "differ_in_body x y"
  shows "list_all2 differ_in_body (insort_key ts_key x xs) (insort_key ts_key y ys)"
  using assms
proof (induction rule: list_all2_induct)
  case Nil
  then show ?case by simp
next
  case (Cons a as b bs)
  then show ?case by (simp add: differ_in_body_key)
qed

lemma sort_differ_in_body:
  assumes "list_all2 differ_in_body xs ys"
  shows "list_all2 differ_in_body (sort_messages xs) (sort_messages ys)"
  using assms unfolding sort_messages_def
  by (induction rule: list_all2_induct) (simp_all add: insort_differ_in_body)

lemma hd_rel: "list_all2 R xs ys \<Longrightarrow> xs \<noteq> [] \<Longrightarrow> R (hd xs) (hd ys)"
  by (cases xs; cases ys) auto

lemma last_rel:
  assumes "list_all2 R xs ys" and "xs \<noteq> []"
  shows "R (last xs) (last ys)"
proof -
  from assms(1) have "list_all2 R (rev xs) (rev ys)" by simp
  moreover from assms(2) have "rev xs \<noteq> []" by simp
  ultimately have "R (hd (rev xs)) (hd (rev ys))" by (rule hd_rel)
  moreover from assms have "ys \<noteq> []" by auto
  ultimately show ?thesis using assms(2) by (simp add: hd_rev)
qed

lemma compute_thread_id_differ_in_body:
  assumes "list_all2 differ_in_body xs ys"
  shows "compute_thread_id s ys = compute_thread_id s xs"
proof (cases "xs = []")
  case True
  with assms show ?thesis by simp
next
  case False
  with assms have ys: "ys \<noteq> []" by auto
  from assms False have "differ_in_body (hd xs) (hd ys)" by (rule hd_rel)
  then have h: "m_timestamp (hd ys) = m_timestamp (hd xs)" by (simp add: differ_in_body_def)
  from assms False have "differ_in_body (last xs) (last ys)" by (rule last_rel)
  then have l: "m_timestamp (last ys) = m_timestamp (last xs)" by (simp add: differ_in_body_def)
  show ?thesis using False ys h l by (simp add: compute_thread_id_def item_timestamp_def)
qed

text \<open>
  Claim C5. Messages are sorted ascending by timestamp under the lexicographic comparison of
  strings (the empty string first) and the sort is stable: the output is a rearrangement of
  the input, its keys ascend, and for every timestamp the messages carrying it appear in
  the output in the order they have in the input.
\<close>

theorem sort_messages_stable:
  "sorted (map ts_key (sort_messages msgs))
   \<and> mset (sort_messages msgs) = mset msgs
   \<and> (\<forall>k. filter (\<lambda>m. ts_key m = k) (sort_messages msgs) = filter (\<lambda>m. ts_key m = k) msgs)
   \<and> (\<forall>m. [] \<le> ts_key m)"
  by (simp add: sort_messages_def sort_key_stable)

theorem sort_messages_stable_witness:
  "filter (\<lambda>m. ts_key m = cp ''b'')
     (sort_messages [text_msg ''b'' ''first'', text_msg ''a'' ''second'', text_msg ''b'' ''third''])
   = [text_msg ''b'' ''first'', text_msg ''b'' ''third'']"
proof -
  let ?ms = "[text_msg ''b'' ''first'', text_msg ''a'' ''second'', text_msg ''b'' ''third'']"
  have "filter (\<lambda>m. ts_key m = cp ''b'') ?ms = [text_msg ''b'' ''first'', text_msg ''b'' ''third'']"
    by (simp add: ts_key_def get_default_def or_empty_def text_msg_def cp_def)
  with sort_messages_stable [of ?ms] show ?thesis by simp
qed

text \<open>
  Claim C4. For a normalised, sorted thread the thread identifier is the SHA-1 digest, as 40
  lowercase hexadecimal characters, of the UTF-8 encoding of the subject followed by the
  timestamp of the first message and the timestamp of the last one (empty strings when there
  is no message); when a surrogate code point makes the encoding fail, so does the
  identifier. It therefore depends on that triple only, and changing message bodies never
  changes it, also through the sort.
\<close>

theorem thread_id_digest:
  assumes "list_all normalized msgs"
  shows "compute_thread_id s msgs =
           bind_err (utf8_encode (s @ first_timestamp msgs @ last_timestamp msgs))
                    (\<lambda>basis. Inr (hexdigest (sha1 basis)))
   \<and> (\<forall>tid. compute_thread_id s msgs = Inr tid
          \<longrightarrow> length tid = 40 \<and> set tid \<subseteq> set ''0123456789abcdef'')
   \<and> (\<forall>xs ys. list_all2 differ_in_body xs ys
          \<longrightarrow> compute_thread_id s (sort_messages ys) = compute_thread_id s (sort_messages xs))"
  using compute_thread_id_normalized [OF assms] compute_thread_id_shape
    compute_thread_id_differ_in_body [OF sort_differ_in_body]
  by blast

theorem thread_id_digest_witness:
  "list_all normalized
     [\<lparr> m_timestamp = Val (cp ''2024-01-01''), m_from = Val (cp ''a''), m_to = Val [cp ''b''],
        m_body = Val (cp ''Hello'') \<rparr>,
      \<lparr> m_timestamp = Val (cp ''2024-01-02''), m_from = Val (cp ''b''), m_to = Val [cp ''a''],
        m_body = Val (cp ''Hi'') \<rparr>]
   \<and> (\<exists>tid. compute_thread_id (cp ''Re'')
     [\<lparr> m_timestamp = Val (cp ''2024-01-01''), m_from = Val (cp ''a''), m_to = Val [cp ''b''],
        m_body = Val (cp ''Hello'') \<rparr>,
      \<lparr> m_timestamp = Val (cp ''2024-01-02''), m_from = Val (cp ''b''), m_to = Val [cp ''a''],
        m_body = Val (cp ''Hi'') \<rparr>] = Inr tid \<and> length tid = 40)"
proof -
  let ?ms = "[\<lparr> m_timestamp = Val (cp ''2024-01-01''), m_from = Val (cp ''a''), m_to = Val [cp ''b''],
        m_body = Val (cp ''Hello'') \<rparr>,
      \<lparr> m_timestamp = Val (cp ''2024-01-02''), m_from = Val (cp ''b''), m_to = Val [cp ''a''],
        m_body = Val (cp ''Hi'') \<rparr>]"
  have n: "list_all normalized ?ms" by (simp add: normalized_def)
  have e: "\<exists>basis. utf8_encode (cp ''Re'' @ first_timestamp ?ms @ last_timestamp ?ms) = Inr basis"
    by (simp add: first_timestamp_def last_timestamp_def ts_key_def get_default_def or_empty_def
        cp_def utf8_cp_def bind_err_def)
  from thread_id_digest [OF n, of "cp ''Re''"] e n show ?thesis
    by (auto simp: bind_err_def)
qed

section \<open>Null fields in a message\<close>

lemmas cli_defs =
  classify_thread_def thread_of_def put_thread_def normalize_thread_def fill_defaults_def
  setdefault_def get_default_def get_none_def or_empty_def sort_messages_def ts_key_def
  compute_thread_id_def item_timestamp_def str_add_def bind_err_def

text \<open>
  Claim C1. For every well-typed input thread \<open>classify_thread\<close> should raise no exception
  and return a complete result, in particular for a message whose timestamp is present but
  null. The code does not: on \<open>{"thread": {"messages": [{"timestamp": null}]}}\<close> the
  timestamp stays \<open>None\<close> through \<open>normalize_thread\<close>, the sort key replaces it by the
  empty string, and \<open>compute_thread_id\<close> raises \<open>TypeError\<close> when it concatenates the
  subject with it. This holds whatever the Unicode tables are.
\<close>

theorem classify_thread_null_timestamp_raises:
  "fst (classify_thread U (DObj (Val \<lparr> subject = Absent, messages = Val
     [\<lparr> m_timestamp = Null, m_from = Absent, m_to = Absent, m_body = Absent \<rparr>] \<rparr>)))
   = Inl TypeError"
  by (simp add: cli_defs)

text \<open>
  Claim C2. Normalisation should replace a timestamp, from, body or to field that is absent
  or null by its default. The code fills the absent keys only: on a message whose four
  fields are null, \<open>normalize_thread\<close> returns the message with its four nulls (the null
  subject does become the empty string).
\<close>

theorem normalize_thread_keeps_null_fields:
  "fst (normalize_thread \<lparr> subject = Null, messages = Val
     [\<lparr> m_timestamp = Null, m_from = Null, m_to = Null, m_body = Null \<rparr>] \<rparr>)
   = ([], [\<lparr> m_timestamp = Null, m_from = Null, m_to = Null, m_body = Null \<rparr>])"
  by (simp add: cli_defs)

section \<open>What the call changes in its argument\<close>

lemma snd_classify_thread:
  "snd (classify_thread U d) = put_thread d (snd (normalize_thread (thread_of d)))"
  by (simp add: classify_thread_def Let_def split: prod.splits)

lemma fill_defaults_only: "only_defaults_added m (fill_defaults m)"
  by (simp add: only_defaults_added_def fill_defaults_def setdefault_def split: field.splits)

lemma fill_defaults_complete: "complete m \<Longrightarrow> fill_defaults m = m"
  by (cases m) (auto simp: complete_def fill_defaults_def setdefault_def split: field.splits)

lemma map_fill_only: "list_all2 only_defaults_added ms (map fill_defaults ms)"
  by (induction ms) (simp_all add: fill_defaults_only)

lemma map_fill_complete: "list_all complete ms \<Longrightarrow> map fill_defaults ms = ms"
  by (induction ms) (simp_all add: fill_defaults_complete)

text \<open>
  Claim C9, as amended. \<open>classify_thread\<close> changes the caller's data in one way only: in each
  message record every key among timestamp, from, to and body that is absent is added with
  its default (\<open>""\<close>, \<open>""\<close>, \<open>[]\<close>, \<open>""\<close>). The subject, the number and order of the messages
  and every field that is present (a null one included) stay as they were, and data whose
  messages all carry the four keys is left exactly as it was.
\<close>

theorem classify_thread_adds_defaults_only:
  "changed_by_defaults d (snd (classify_thread U d))
   \<and> (list_all complete (messages_of d) \<longrightarrow> snd (classify_thread U d) = d)"
proof (cases d)
  case DNull
  then show ?thesis by (simp add: snd_classify_thread put_thread_def)
next
  case (DObj f)
  show ?thesis
  proof (cases f)
    case Absent
    with DObj show ?thesis by (simp add: snd_classify_thread put_thread_def)
  next
    case Null
    with DObj show ?thesis by (simp add: snd_classify_thread put_thread_def)
  next
    case (Val t)
    show ?thesis
    proof (cases "messages t")
      case Absent
      with DObj Val show ?thesis
        by (simp add: snd_classify_thread put_thread_def thread_of_def normalize_thread_def)
    next
      case Null
      with DObj Val show ?thesis
        by (simp add: snd_classify_thread put_thread_def thread_of_def normalize_thread_def)
    next
      case (Val ms)
      with DObj \<open>f = Val t\<close> show ?thesis
        by (simp add: snd_classify_thread put_thread_def thread_of_def normalize_thread_def
            messages_of_def or_empty_def map_fill_only map_fill_complete)
    qed
  qed
qed

text \<open>
  Claim C9 as stated (the input value is unchanged after \<open>classify_thread\<close> returns) fails:
  on \<open>{"thread": {"messages": [{}]}}\<close> the message dictionary has four keys afterwards.
\<close>

theorem classify_thread_mutates_input:
  "snd (classify_thread ascii_ucd (DObj (Val \<lparr> subject = Absent, messages = Val
     [\<lparr> m_timestamp = Absent, m_from = Absent, m_to = Absent, m_body = Absent \<rparr>] \<rparr>)))
   \<noteq> DObj (Val \<lparr> subject = Absent, messages = Val
     [\<lparr> m_timestamp = Absent, m_from = Absent, m_to = Absent, m_body = Absent \<rparr>] \<rparr>)"
  by (simp add: snd_classify_thread put_thread_def thread_of_def normalize_thread_def
      fill_defaults_def setdefault_def)

theorem classify_thread_adds_defaults_only_witness:
  "list_all complete (messages_of (DObj (Val \<lparr> subject = Val (cp ''Hi''), messages = Val
     [\<lparr> m_timestamp = Val (cp ''1''), m_from = Null, m_to = Val [], m_body = Val (cp ''x'') \<rparr>] \<rparr>)))
   \<and> snd (classify_thread ascii_ucd (DObj (Val \<lparr> subject = Val (cp ''Hi''), messages = Val
     [\<lparr> m_timestamp = Val (cp ''1''), m_from = Null, m_to = Val [], m_body = Val (cp ''x'') \<rparr>] \<rparr>)))
     = DObj (Val \<lparr> subject = Val (cp ''Hi''), messages = Val
     [\<lparr> m_timestamp = Val (cp ''1''), m_from = Null, m_to = Val [], m_body = Val (cp ''x'') \<rparr>] \<rparr>)"
proof -
  let ?d = "DObj (Val \<lparr> subject = Val (cp ''Hi''), messages = Val
     [\<lparr> m_timestamp = Val (cp ''1''), m_from = Null, m_to = Val [], m_body = Val (cp ''x'') \<rparr>] \<rparr>)"
  have h: "list_all complete (messages_of ?d)"
    by (simp add: messages_of_def thread_of_def or_empty_def complete_def)
  from classify_thread_adds_defaults_only [of ?d ascii_ucd] h show ?thesis by blast
qed

section \<open>The empty thread\<close>

lemma empty_text_no_match:
  "\<not> re_search U RE_TIME_PROPOSE []" "\<not> re_search U RE_TIME_CONFIRM []"
  "\<not> re_search U RE_TIME_RESCHED []" "\<not> re_search U RE_ATTACH_ATTACHED []"
  "\<not> re_search U RE_ATTACH_EXPECT []" "\<not> re_search U RE_URGENT []" "\<not> re_search U RE_LOW []"
  "\<not> re_search U RE_TONE_POS []" "\<not> re_search U RE_TONE_FRUS []" "\<not> re_search U RE_FOLLOWUP []"
  "\<not> re_search U RE_RESOLVED []" "\<not> re_search U RE_REVIEW []" "\<not> re_search U RE_EDIT []"
  "\<not> re_search U RE_PROVIDE_DOCS []" "\<not> re_search U RE_MEET []"
  by (simp_all add: re_search_def lit_def cps_def cp_def at_boundary_def one_char_def
      RE_TIME_PROPOSE_def RE_TIME_CONFIRM_def RE_TIME_RESCHED_def RE_ATTACH_ATTACHED_def
      RE_ATTACH_EXPECT_def RE_URGENT_def RE_LOW_def RE_TONE_POS_def RE_TONE_FRUS_def
      RE_FOLLOWUP_def RE_RESOLVED_def RE_REVIEW_def RE_EDIT_def RE_PROVIDE_DOCS_def RE_MEET_def)

lemma classify_labels_empty: "classify_labels U [] [] = default_label"
  by (simp add: classify_labels_views Let_def all_text_view_def tail_view_def last_view_def
      nonempty_bodies_def str_lower_def empty_text_no_match default_label_def)

lemma classify_thread_empty:
  assumes "thread_of d = \<lparr> subject = Absent, messages = Absent \<rparr>"
  shows "fst (classify_thread U d) = Inr \<lparr> thread_id = hexdigest (sha1 []), label = default_label \<rparr>"
  using assms
  by (simp add: classify_thread_def Let_def normalize_thread_def get_default_def or_empty_def
      sort_messages_def compute_thread_id_def str_add_def bind_err_def classify_labels_empty)

text \<open>
  Claim C10. \<open>classify_thread\<close> applied to a null top-level value, or to data whose thread
  field is absent or null, raises no error and returns what it returns on the empty thread
  \<open>{"thread": {}}\<close>: the all-defaults label and the identifier of three empty strings.
\<close>

theorem classify_thread_null_is_empty_thread:
  "fst (classify_thread U DNull) = fst (classify_thread U (DObj (Val \<lparr> subject = Absent, messages = Absent \<rparr>)))
   \<and> fst (classify_thread U (DObj Absent)) = fst (classify_thread U (DObj (Val \<lparr> subject = Absent, messages = Absent \<rparr>)))
   \<and> fst (classify_thread U (DObj Null)) = fst (classify_thread U (DObj (Val \<lparr> subject = Absent, messages = Absent \<rparr>)))
   \<and> fst (classify_thread U (DObj (Val \<lparr> subject = Absent, messages = Absent \<rparr>)))
       = Inr \<lparr> thread_id = hexdigest (sha1 []), label = default_label \<rparr>
   \<and> compute_thread_id ([] @ [] @ []) [] = Inr (hexdigest (sha1 []))"
  by (simp add: classify_thread_empty thread_of_def compute_thread_id_def str_add_def bind_err_def)


end
